theory Spec2Isabelle
  imports Complex_Main
begin

section \<open>Data model of MQPL.py\<close>

text \<open>
  Python strings are modelled as \<^typ>\<open>string\<close>, one \<^typ>\<open>char\<close> per code point;
  the accented letters of the source's message texts are Latin-1 code points below 256
  and are written \<open>CHR 0x..\<close>. Python's unbounded integers are \<^typ>\<open>int\<close>.
  Floats (the budget, a risk's probability) are only stored and printed by the program,
  never computed with: they are carried as \<^typ>\<open>real\<close> and printed by a function
  \<open>float_str\<close> that the printing operations take as a parameter.
\<close>

record Membre =
  nom :: string
  role :: string

text \<open>
  A naive \<open>datetime\<close> of the Python standard library, with the part of its arithmetic
  that the program uses: the proleptic Gregorian ordinal of the date and the \<open>days\<close>
  attribute of the difference of two datetimes (the floor of the difference in days).
  The constructor of the library accepts valid dates only, so \<open>month\<close> is between 1 and
  12 wherever the table \<open>DAYS_BEFORE_MONTH\<close> is read.
\<close>

record datetime =
  year :: int
  month :: int
  day :: int
  hour :: int
  minute :: int
  second :: int
  microsecond :: int

definition is_leap :: "int \<Rightarrow> bool" where
  "is_leap y \<longleftrightarrow> y mod 4 = 0 \<and> (y mod 100 \<noteq> 0 \<or> y mod 400 = 0)"

definition days_before_year :: "int \<Rightarrow> int" where
  "days_before_year y =
     (let y1 = y - 1 in y1 * 365 + y1 div 4 - y1 div 100 + y1 div 400)"

definition DAYS_BEFORE_MONTH :: "int list" where
  "DAYS_BEFORE_MONTH = [-1, 0, 31, 59, 90, 120, 151, 181, 212, 243, 273, 304, 334]"

definition days_before_month :: "int \<Rightarrow> int \<Rightarrow> int" where
  "days_before_month y m =
     DAYS_BEFORE_MONTH ! nat m + (if m > 2 \<and> is_leap y then 1 else 0)"

definition toordinal :: "datetime \<Rightarrow> int" where
  "toordinal d = days_before_year (year d) + days_before_month (year d) (month d) + day d"

definition seconds_of_day :: "datetime \<Rightarrow> int" where
  "seconds_of_day d = second d + minute d * 60 + hour d * 3600"

text \<open>\<open>(a - b).days\<close>: the timedelta is normalised, so its \<open>days\<close> is a floor.\<close>

definition sub_days :: "datetime \<Rightarrow> datetime \<Rightarrow> int" where
  "sub_days a b =
     (toordinal a - toordinal b)
     + ((seconds_of_day a - seconds_of_day b) * 1000000 + (microsecond a - microsecond b))
         div (86400 * 1000000)"

text \<open>
  Tasks are mutable objects compared and hashed by identity, and a task refers to its
  predecessors by reference, so a task is an address into a heap of task objects and
  \<open>dependances\<close> is a list of addresses. Every Python reference denotes an object:
  the heap is total. The operations modelled below only read the predecessor lists; a
  heap with a cycle is written down as the state that \<open>ajouter_dependance\<close> leaves.
\<close>

type_synonym addr = nat

record Tache =
  nom :: string
  description :: string
  date_debut :: datetime
  date_fin :: datetime
  responsable :: Membre
  statut :: string
  dependances :: "addr list"

type_synonym heap = "addr \<Rightarrow> Tache"

definition mettre_a_jour_statut :: "addr \<Rightarrow> string \<Rightarrow> heap \<Rightarrow> heap" where
  "mettre_a_jour_statut self s h = h(self := (h self)\<lparr>statut := s\<rparr>)"

record Equipe =
  membres :: "Membre list"

definition ajouter_membre :: "Membre \<Rightarrow> Equipe \<Rightarrow> Equipe" where
  "ajouter_membre membre e = e\<lparr>membres := membres e @ [membre]\<rparr>"

definition obtenir_membres :: "Equipe \<Rightarrow> Membre list" where
  "obtenir_membres e = membres e"

record Jalon =
  nom :: string
  date :: datetime

record Risque =
  description :: string
  probabilite :: real
  impact :: string

text \<open>The constructor of \<open>Changement\<close> reads the clock; the reading is the argument \<open>now\<close>.\<close>

record Changement =
  description :: string
  version :: int
  date :: datetime

definition Changement_init :: "datetime \<Rightarrow> string \<Rightarrow> int \<Rightarrow> Changement" where
  "Changement_init now d v =
     \<lparr>Changement.description = d, Changement.version = v, Changement.date = now\<rparr>"


section \<open>Text formatting\<close>

definition e_aigu :: string where "e_aigu = [CHR 0xE9]"
definition a_grave :: string where "a_grave = [CHR 0xE0]"
definition a_circ :: string where "a_circ = [CHR 0xE2]"
definition E_aigu :: string where "E_aigu = [CHR 0xC9]"
definition apostrophe :: string where "apostrophe = [CHR 0x27]"
definition newline :: string where "newline = [CHR 0x0A]"

text \<open>\<open>str\<close> of an integer: decimal digits, with a minus sign when negative.\<close>

fun str_nat :: "nat \<Rightarrow> string" where
  "str_nat n =
     (if n < 10 then [''0123456789'' ! n]
      else str_nat (n div 10) @ [''0123456789'' ! (n mod 10)])"

declare str_nat.simps [simp del]

definition str_int :: "int \<Rightarrow> string" where
  "str_int i = (if i < 0 then ''-'' @ str_nat (nat (- i)) else str_nat (nat i))"

text \<open>The format \<open>%0wd\<close> for a non-negative field.\<close>

definition zero_pad :: "nat \<Rightarrow> int \<Rightarrow> string" where
  "zero_pad w i = (let s = str_int i in replicate (w - length s) (CHR ''0'') @ s)"

text \<open>\<open>str\<close> of a datetime: ISO format with a space separator, the microseconds
  printed only when they are not zero.\<close>

definition str_datetime :: "datetime \<Rightarrow> string" where
  "str_datetime d =
     zero_pad 4 (year d) @ ''-'' @ zero_pad 2 (month d) @ ''-'' @ zero_pad 2 (day d)
     @ '' '' @ zero_pad 2 (hour d) @ '':'' @ zero_pad 2 (minute d) @ '':'' @ zero_pad 2 (second d)
     @ (if microsecond d \<noteq> 0 then ''.'' @ zero_pad 6 (microsecond d) else [])"

section \<open>Notification strategies and the dispatcher\<close>

text \<open>
  The three concrete strategies of the source. \<open>envoyer_message\<close> prints one line;
  the model returns the line, and standard output is the list of lines printed.
\<close>

datatype NotificationStrategy =
  EmailNotificationStrategy | SMSNotificationStrategy | PushNotificationStrategy

fun canal :: "NotificationStrategy \<Rightarrow> string" where
  "canal EmailNotificationStrategy = ''email''"
| "canal SMSNotificationStrategy = ''SMS''"
| "canal PushNotificationStrategy = ''Push''"

definition envoyer_message :: "NotificationStrategy \<Rightarrow> string \<Rightarrow> Membre \<Rightarrow> string" where
  "envoyer_message s message destinataire =
     ''Notification envoy'' @ e_aigu @ ''e '' @ a_grave @ '' '' @ Membre.nom destinataire
     @ '' par '' @ canal s @ '': '' @ message"

record NotificationContext =
  strategy :: NotificationStrategy

text \<open>\<open>NotificationContext.notifier\<close>: one call of the strategy per recipient, in order.\<close>

fun NotificationContext_notifier ::
  "NotificationContext \<Rightarrow> string \<Rightarrow> Membre list \<Rightarrow> string list" where
  "NotificationContext_notifier ctx message [] = []"
| "NotificationContext_notifier ctx message (destinataire # rest) =
     envoyer_message (strategy ctx) message destinataire
       # NotificationContext_notifier ctx message rest"

section \<open>The project aggregate\<close>

record Projet =
  nom :: string
  description :: string
  date_debut :: datetime
  date_fin :: datetime
  budget :: real
  taches :: "addr list"
  equipe :: Equipe
  risques :: "Risque list"
  jalons :: "Jalon list"
  version :: int
  changements :: "Changement list"
  chemin_critique :: "addr list"
  notification_context :: "NotificationContext option"

definition Projet_init :: "string \<Rightarrow> string \<Rightarrow> datetime \<Rightarrow> datetime \<Rightarrow> Projet" where
  "Projet_init n d dd df =
     \<lparr>Projet.nom = n, Projet.description = d, Projet.date_debut = dd, Projet.date_fin = df,
      budget = 0, taches = [], equipe = \<lparr>membres = []\<rparr>, risques = [], jalons = [],
      Projet.version = 1, changements = [], chemin_critique = [],
      notification_context = None\<rparr>"

definition set_notification_strategy :: "NotificationStrategy \<Rightarrow> Projet \<Rightarrow> Projet" where
  "set_notification_strategy s p = p\<lparr>notification_context := Some \<lparr>strategy = s\<rparr>\<rparr>"

text \<open>\<open>Projet.notifier\<close>: guarded by the presence of a notification context.\<close>

definition notifier :: "Projet \<Rightarrow> string \<Rightarrow> string list" where
  "notifier p message =
     (case notification_context p of
        None \<Rightarrow> []
      | Some ctx \<Rightarrow> NotificationContext_notifier ctx message (membres (equipe p)))"

text \<open>Each mutating operation returns the new project and the lines it printed.\<close>

definition ajouter_tache :: "heap \<Rightarrow> addr \<Rightarrow> Projet \<Rightarrow> Projet \<times> string list" where
  "ajouter_tache h tache p =
     (let p' = p\<lparr>taches := taches p @ [tache]\<rparr>
      in (p', notifier p'
            (''Nouvelle t'' @ a_circ @ ''che ajout'' @ e_aigu @ ''e: '' @ Tache.nom (h tache))))"

definition ajouter_membre_equipe :: "Membre \<Rightarrow> Projet \<Rightarrow> Projet \<times> string list" where
  "ajouter_membre_equipe membre p =
     (let p' = p\<lparr>equipe := ajouter_membre membre (equipe p)\<rparr>
      in (p', notifier p'
            (Membre.nom membre @ '' a '' @ e_aigu @ ''t'' @ e_aigu @ '' ajout'' @ e_aigu
             @ '' '' @ a_grave @ '' l'' @ apostrophe @ e_aigu @ ''quipe'')))"

definition definir_budget :: "(real \<Rightarrow> string) \<Rightarrow> real \<Rightarrow> Projet \<Rightarrow> Projet \<times> string list" where
  "definir_budget float_str b p =
     (let p' = p\<lparr>budget := b\<rparr>
      in (p', notifier p'
            (''Le budget du projet a '' @ e_aigu @ ''t'' @ e_aigu @ '' d'' @ e_aigu @ ''fini ''
             @ a_grave @ '' '' @ float_str (budget p') @ '' Unit'' @ e_aigu @ '' Mon''
             @ e_aigu @ ''taire'')))"

definition ajouter_risque :: "Risque \<Rightarrow> Projet \<Rightarrow> Projet \<times> string list" where
  "ajouter_risque risque p =
     (let p' = p\<lparr>risques := risques p @ [risque]\<rparr>
      in (p', notifier p'
            (''Nouveau risque ajout'' @ e_aigu @ '': '' @ Risque.description risque)))"

definition ajouter_jalon :: "Jalon \<Rightarrow> Projet \<Rightarrow> Projet \<times> string list" where
  "ajouter_jalon jalon p =
     (let p' = p\<lparr>jalons := jalons p @ [jalon]\<rparr>
      in (p', notifier p' (''Nouveau jalon ajout'' @ e_aigu @ '': '' @ Jalon.nom jalon)))"

definition enregistrer_changement ::
  "datetime \<Rightarrow> string \<Rightarrow> Projet \<Rightarrow> Projet \<times> string list" where
  "enregistrer_changement now d p =
     (let changement = Changement_init now d (Projet.version p);
          p1 = p\<lparr>changements := changements p @ [changement]\<rparr>;
          p2 = p1\<lparr>Projet.version := Projet.version p1 + 1\<rparr>
      in (p2, notifier p2
            (''Changement enregistr'' @ e_aigu @ '': '' @ d @ '' (version ''
             @ str_int (Projet.version p2) @ '')'')))"


section \<open>The critical path\<close>

text \<open>
  The state of one run of \<open>calculer_chemin_critique\<close>: the memo dictionary, keyed by task
  identity, and a ghost log \<open>evaluated\<close> of the tasks whose entry was computed and stored,
  in the order of the stores. The log is not read by the algorithm; it records how often
  each task is evaluated.
\<close>

record fl_state =
  memo :: "addr \<rightharpoonup> int \<times> addr list"
  evaluated :: "addr list"

definition store :: "addr \<Rightarrow> int \<times> addr list \<Rightarrow> fl_state \<Rightarrow> fl_state" where
  "store tache r st = st\<lparr>memo := (memo st)(tache \<mapsto> r), evaluated := evaluated st @ [tache]\<rparr>"

text \<open>
  \<open>find_longest_path\<close> recurses along the predecessor references, one interpreter frame
  per nested call. The interpreter allows a bounded number of frames and raises
  \<open>RecursionError\<close> at the call that would exceed it: the first argument \<open>limit\<close> is the
  number of nested calls of \<open>find_longest_path\<close> that the recursion limit still allows,
  and a call with none left is the error. \<open>for_dep\<close> is the \<open>for dep in ...\<close> loop of the
  body, with the predecessors still to visit and the loop variables; it runs in the frame
  of the call, so the calls it makes have the same number of frames left.
\<close>

datatype error = RecursionError | ValueError

fun find_longest_path ::
    "nat \<Rightarrow> heap \<Rightarrow> addr \<Rightarrow> fl_state \<Rightarrow> error + (int \<times> addr list) \<times> fl_state"
  and for_dep ::
    "nat \<Rightarrow> heap \<Rightarrow> addr list \<Rightarrow> int \<Rightarrow> addr list \<Rightarrow> fl_state
       \<Rightarrow> error + (int \<times> addr list) \<times> fl_state"
where
  "find_longest_path 0 h tache st = Inl RecursionError"
| "find_longest_path (Suc limit) h tache st =
     (case memo st tache of
        Some r \<Rightarrow> Inr (r, st)
      | None \<Rightarrow>
          if dependances (h tache) = [] then
            Inr ((0, [tache]), store tache (0, [tache]) st)
          else
            (case for_dep limit h (dependances (h tache)) 0 [] st of
               Inl e \<Rightarrow> Inl e
             | Inr ((max_length, max_path), st') \<Rightarrow>
                 let total_length =
                   max_length + sub_days (Tache.date_fin (h tache)) (Tache.date_debut (h tache))
                 in Inr ((total_length, max_path @ [tache]),
                         store tache (total_length, max_path @ [tache]) st')))"
| "for_dep limit h [] max_length max_path st = Inr ((max_length, max_path), st)"
| "for_dep limit h (dep # rest) max_length max_path st =
     (case find_longest_path limit h dep st of
        Inl e \<Rightarrow> Inl e
      | Inr ((dep_length, dep_path), st') \<Rightarrow>
          if dep_length > max_length
          then for_dep limit h rest dep_length dep_path st'
          else for_dep limit h rest max_length max_path st')"

text \<open>The list comprehension \<open>[find_longest_path(tache, memo) for tache in self.taches]\<close>.\<close>

fun all_paths ::
  "nat \<Rightarrow> heap \<Rightarrow> addr list \<Rightarrow> fl_state \<Rightarrow> error + (int \<times> addr list) list \<times> fl_state" where
  "all_paths limit h [] st = Inr ([], st)"
| "all_paths limit h (tache # rest) st =
     (case find_longest_path limit h tache st of
        Inl e \<Rightarrow> Inl e
      | Inr (r, st') \<Rightarrow>
          (case all_paths limit h rest st' of
             Inl e \<Rightarrow> Inl e
           | Inr (rs, st'') \<Rightarrow> Inr (r # rs, st'')))"

text \<open>
  \<open>max(xs, key=lambda x: x[0])\<close>: the first element with the greatest key (a later
  element replaces the current one only when its key is strictly greater), and
  \<open>ValueError\<close> on an empty list.
\<close>

fun max_from :: "int \<times> 'a \<Rightarrow> (int \<times> 'a) list \<Rightarrow> int \<times> 'a" where
  "max_from best [] = best"
| "max_from best (x # xs) = (if fst x > fst best then max_from x xs else max_from best xs)"

definition max_key :: "(int \<times> 'a) list \<Rightarrow> error + int \<times> 'a" where
  "max_key xs = (case xs of [] \<Rightarrow> Inl ValueError | x # rest \<Rightarrow> Inr (max_from x rest))"

text \<open>
  \<open>calculer_chemin_critique\<close>, with the number \<open>limit\<close> of nested calls of
  \<open>find_longest_path\<close> that the recursion limit allows at this point: \<open>Inl RecursionError\<close>
  when the recursion exceeds it, \<open>Inl ValueError\<close> when \<open>max\<close> raises (the project is
  left as it was in both cases), \<open>Inr p'\<close> with the project after the assignment to
  \<open>chemin_critique\<close> otherwise.
\<close>

definition calculer_chemin_critique :: "nat \<Rightarrow> heap \<Rightarrow> Projet \<Rightarrow> error + Projet" where
  "calculer_chemin_critique limit h p =
     (case all_paths limit h (taches p) \<lparr>memo = Map.empty, evaluated = []\<rparr> of
        Inl e \<Rightarrow> Inl e
      | Inr (paths, st) \<Rightarrow>
          (case max_key paths of
             Inl e \<Rightarrow> Inl e
           | Inr best \<Rightarrow> Inr (p\<lparr>chemin_critique := snd best\<rparr>)))"

section \<open>The report\<close>

definition ligne_membre :: "Membre \<Rightarrow> string" where
  "ligne_membre membre = ''- '' @ Membre.nom membre @ '' ('' @ role membre @ '')'' @ newline"

definition ligne_tache :: "Tache \<Rightarrow> string" where
  "ligne_tache tache =
     ''- '' @ Tache.nom tache @ '' ('' @ str_datetime (Tache.date_debut tache) @ '' '' @ a_grave
     @ '' '' @ str_datetime (Tache.date_fin tache) @ ''), Responsable: ''
     @ Membre.nom (responsable tache) @ '', Statut: '' @ statut tache @ newline"

definition ligne_jalon :: "Jalon \<Rightarrow> string" where
  "ligne_jalon jalon =
     ''- '' @ Jalon.nom jalon @ '' ('' @ str_datetime (Jalon.date jalon) @ '')'' @ newline"

definition ligne_risque :: "(real \<Rightarrow> string) \<Rightarrow> Risque \<Rightarrow> string" where
  "ligne_risque float_str risque =
     ''- '' @ Risque.description risque @ '' (Probabilit'' @ e_aigu @ '': ''
     @ float_str (probabilite risque) @ '', Impact: '' @ impact risque @ '')'' @ newline"

definition ligne_chemin :: "Tache \<Rightarrow> string" where
  "ligne_chemin tache =
     ''- '' @ Tache.nom tache @ '' ('' @ str_datetime (Tache.date_debut tache) @ '' '' @ a_grave
     @ '' '' @ str_datetime (Tache.date_fin tache) @ '')'' @ newline"

definition generer_rapport :: "(real \<Rightarrow> string) \<Rightarrow> heap \<Rightarrow> Projet \<Rightarrow> string" where
  "generer_rapport float_str h p =
     ''Rapport d'' @ apostrophe @ ''activit'' @ e_aigu @ ''s du Projet '' @ apostrophe
       @ Projet.nom p @ apostrophe @ '':'' @ newline
     @ ''Version: '' @ str_int (Projet.version p) @ newline
     @ ''Dates: '' @ str_datetime (Projet.date_debut p) @ '' '' @ a_grave @ '' ''
       @ str_datetime (Projet.date_fin p) @ newline
     @ ''Budget: '' @ float_str (budget p) @ '' Unit'' @ e_aigu @ '' Mon'' @ e_aigu @ ''taire''
       @ newline
     @ E_aigu @ ''quipe:'' @ newline
     @ concat (map ligne_membre (membres (equipe p)))
     @ ''T'' @ a_circ @ ''ches:'' @ newline
     @ concat (map (\<lambda>tache. ligne_tache (h tache)) (taches p))
     @ ''Jalons:'' @ newline
     @ concat (map ligne_jalon (jalons p))
     @ ''Risques:'' @ newline
     @ concat (map (ligne_risque float_str) (risques p))
     @ ''Chemin Critique:'' @ newline
     @ concat (map (\<lambda>tache. ligne_chemin (h tache)) (chemin_critique p))"


section \<open>The fixtures of the unit tests\<close>

definition datetime_init :: "int \<Rightarrow> int \<Rightarrow> int \<Rightarrow> datetime" where
  "datetime_init y m d =
     \<lparr>year = y, month = m, day = d, hour = 0, minute = 0, second = 0, microsecond = 0\<rparr>"

definition modou :: Membre where
  "modou = \<lparr>Membre.nom = ''Brahim'', role = ''Chef de projet''\<rparr>"

definition christian :: Membre where
  "christian = \<lparr>Membre.nom = ''Pape'', role = ''D'' @ e_aigu @ ''veloppeur''\<rparr>"

definition projet_neuf :: Projet where
  "projet_neuf =
     Projet_init ''Nouveau Produit''
       (''D'' @ e_aigu @ ''veloppement d'' @ apostrophe @ ''un nouveau produit'')
       (datetime_init 2024 1 1) (datetime_init 2024 12 31)"

definition projet_setUp :: Projet where
  "projet_setUp = set_notification_strategy EmailNotificationStrategy projet_neuf"

definition tache1 :: Tache where
  "tache1 =
     \<lparr>Tache.nom = ''Analyse des besoins'',
      Tache.description = ''Description de l'' @ apostrophe @ ''analyse des besoins'',
      Tache.date_debut = datetime_init 2024 1 1, Tache.date_fin = datetime_init 2024 1 31,
      responsable = modou, statut = ''Termin'' @ e_aigu @ ''e'', dependances = []\<rparr>"

definition tache2 :: Tache where
  "tache2 =
     \<lparr>Tache.nom = ''D'' @ e_aigu @ ''veloppement'',
      Tache.description = ''Description du d'' @ e_aigu @ ''veloppement'',
      Tache.date_debut = datetime_init 2024 2 1, Tache.date_fin = datetime_init 2024 6 30,
      responsable = christian, statut = ''Non d'' @ e_aigu @ ''marr'' @ e_aigu @ ''e'',
      dependances = [0]\<rparr>"

text \<open>The heap of \<open>test_calculer_chemin_critique\<close>: \<open>tache1\<close> at address 0, \<open>tache2\<close> at
  address 1, its predecessor list holding the reference 0.\<close>

definition tas_test :: heap where
  "tas_test = (\<lambda>_. tache1)(1 := tache2)"

definition fl_init :: fl_state where
  "fl_init = \<lparr>memo = Map.empty, evaluated = []\<rparr>"

text \<open>The project of \<open>test_calculer_chemin_critique\<close> after its two \<open>ajouter_tache\<close>.\<close>

definition projet_taches :: Projet where
  "projet_taches = fst (ajouter_tache tas_test 1 (fst (ajouter_tache tas_test 0 projet_setUp)))"

text \<open>The team, the risk and the milestone of \<open>test_generer_rapport\<close>.\<close>

definition projet_equipe :: Projet where
  "projet_equipe =
     fst (ajouter_membre_equipe christian (fst (ajouter_membre_equipe modou projet_setUp)))"

definition risque_test :: Risque where
  "risque_test =
     \<lparr>Risque.description = ''Retard de livraison'', probabilite = 3 / 10,
      impact = E_aigu @ ''lev'' @ e_aigu\<rparr>"

definition jalon_test :: Jalon where
  "jalon_test =
     \<lparr>Jalon.nom = ''Phase 1 termin'' @ e_aigu @ ''e'', Jalon.date = datetime_init 2024 1 31\<rparr>"

text \<open>
  A diamond: task 0 precedes tasks 1 and 2, which both precede task 3. Tasks 1 and 2
  each last from 9:00 to 17:00 of the same day.
\<close>

definition tache_A :: Tache where
  "tache_A =
     \<lparr>Tache.nom = ''A'', Tache.description = '''',
      Tache.date_debut = datetime_init 2024 1 1, Tache.date_fin = datetime_init 2024 1 31,
      responsable = modou, statut = ''Termin'' @ e_aigu @ ''e'', dependances = []\<rparr>"

definition tache_B :: Tache where
  "tache_B =
     \<lparr>Tache.nom = ''B'', Tache.description = '''',
      Tache.date_debut = (datetime_init 2024 2 1)\<lparr>hour := 9\<rparr>,
      Tache.date_fin = (datetime_init 2024 2 1)\<lparr>hour := 17\<rparr>,
      responsable = modou, statut = ''En cours'', dependances = [0]\<rparr>"

definition tache_C :: Tache where
  "tache_C =
     \<lparr>Tache.nom = ''C'', Tache.description = '''',
      Tache.date_debut = (datetime_init 2024 2 1)\<lparr>hour := 9\<rparr>,
      Tache.date_fin = (datetime_init 2024 2 1)\<lparr>hour := 17\<rparr>,
      responsable = christian, statut = ''En cours'', dependances = [0]\<rparr>"

definition tache_D :: Tache where
  "tache_D =
     \<lparr>Tache.nom = ''D'', Tache.description = '''',
      Tache.date_debut = datetime_init 2024 2 2, Tache.date_fin = datetime_init 2024 2 10,
      responsable = christian, statut = ''Non d'' @ e_aigu @ ''marr'' @ e_aigu @ ''e'',
      dependances = [1, 2]\<rparr>"

definition tas_diamant :: heap where
  "tas_diamant = (\<lambda>_. tache_A)(1 := tache_B, 2 := tache_C, 3 := tache_D)"




section \<open>The dependency graph\<close>

text \<open>The own duration of a task, as \<open>find_longest_path\<close> computes it.\<close>

definition duree :: "heap \<Rightarrow> addr \<Rightarrow> int" where
  "duree h t = sub_days (Tache.date_fin (h t)) (Tache.date_debut (h t))"




section \<open>Properties\<close>

lemmas datetime_defs =
  sub_days_def toordinal_def days_before_year_def days_before_month_def DAYS_BEFORE_MONTH_def
  is_leap_def seconds_of_day_def datetime_init_def

lemma duree_tache1: "sub_days (Tache.date_fin tache1) (Tache.date_debut tache1) = 30"
  by (simp add: tache1_def datetime_defs)

lemma duree_tache2: "sub_days (Tache.date_fin tache2) (Tache.date_debut tache2) = 150"
  by (simp add: tache2_def datetime_defs)

lemma dependances_test: "dependances tache1 = []" "dependances tache2 = [0]"
  by (simp_all add: tache1_def tache2_def)

text \<open>
  Claim C1. On the linear chain of the repository's own test (task 0 from 1 to 31 January
  2024 without predecessor, task 1 from 1 February to 30 June 2024 with predecessor 0) the
  claim expects the path \<open>[0, 1]\<close> with total durations 30 and 180. The code evaluates as
  follows: the source task spans 30 days but is given the total duration 0; its successor
  gets 150 and the path \<open>[1]\<close>, since the length 0 of its predecessor is not strictly
  greater than the initial maximum 0; the critical path cached on the project is \<open>[1]\<close>.
  This is so whenever the recursion limit allows the two nested calls that the chain needs.
\<close>

theorem test_calculer_chemin_critique_run:
  "sub_days (Tache.date_fin (tas_test 0)) (Tache.date_debut (tas_test 0)) = 30
   \<and> find_longest_path (Suc limit) tas_test 0 fl_init =
       Inr ((0, [0]), \<lparr>memo = [0 \<mapsto> (0, [0])], evaluated = [0]\<rparr>)
   \<and> find_longest_path (Suc (Suc limit)) tas_test 1 fl_init =
       Inr ((150, [1]), \<lparr>memo = [0 \<mapsto> (0, [0]), 1 \<mapsto> (150, [1])], evaluated = [0, 1]\<rparr>)
   \<and> calculer_chemin_critique (Suc (Suc limit)) tas_test
        (fst (ajouter_tache tas_test 1 (fst (ajouter_tache tas_test 0 projet_setUp))))
      = Inr (projet_setUp\<lparr>taches := [0, 1], chemin_critique := [1]\<rparr>)"
  by (simp add: tas_test_def fl_init_def store_def duree_tache1
      duree_tache2 dependances_test calculer_chemin_critique_def ajouter_tache_def
      max_key_def Let_def projet_setUp_def projet_neuf_def set_notification_strategy_def
      Projet_init_def)

text \<open>
  Claim C2. On a project without tasks the claim expects an empty critical path and no
  error. The code evaluates \<open>max\<close> on an empty list: on a fresh project
  \<open>calculer_chemin_critique\<close> ends with \<open>ValueError\<close>.
\<close>

theorem calculer_chemin_critique_vide:
  "calculer_chemin_critique limit h (Projet_init n d dd df) = Inl ValueError"
  by (simp add: calculer_chemin_critique_def Projet_init_def max_key_def)

lemma NotificationContext_notifier_map:
  "NotificationContext_notifier ctx message ms = map (envoyer_message (strategy ctx) message) ms"
  by (induction ms) simp_all

lemma str_int_2: "str_int 2 = ''2''"
  by (simp add: str_int_def str_nat.simps)

text \<open>
  Claim C3. On a project whose version counter is 1 and that has no change recorded yet
  (a fresh project, with or without a strategy and members), \<open>enregistrer_changement\<close>
  appends exactly one change stamped with version 1, leaves the counter at 2, and the
  message handed to the notification announces version 2.
\<close>

theorem enregistrer_changement_fresh:
  assumes "Projet.version p = 1" and "changements p = []"
  shows "enregistrer_changement now ''x'' p =
           (p\<lparr>changements := [\<lparr>Changement.description = ''x'', Changement.version = 1,
                                 Changement.date = now\<rparr>],
               Projet.version := 2\<rparr>,
            notifier p (''Changement enregistr'' @ e_aigu @ '': x (version 2)''))"
  using assms
  by (simp add: enregistrer_changement_def Changement_init_def Let_def notifier_def str_int_2
      split: option.splits)

theorem enregistrer_changement_fresh_witness:
  "enregistrer_changement (datetime_init 2024 3 1) ''x''
       (Projet_init ''P'' ''D'' (datetime_init 2024 1 1) (datetime_init 2024 12 31)) =
     ((Projet_init ''P'' ''D'' (datetime_init 2024 1 1) (datetime_init 2024 12 31))
        \<lparr>changements := [\<lparr>Changement.description = ''x'', Changement.version = 1,
                           Changement.date = datetime_init 2024 3 1\<rparr>],
         Projet.version := 2\<rparr>, [])
   \<and> snd (enregistrer_changement (datetime_init 2024 3 1) ''x''
            (fst (ajouter_membre_equipe modou projet_setUp))) =
       [''Notification envoy'' @ e_aigu @ ''e '' @ a_grave
        @ '' Brahim par email: Changement enregistr'' @ e_aigu @ '': x (version 2)'']"
  using enregistrer_changement_fresh
      [of "Projet_init ''P'' ''D'' (datetime_init 2024 1 1) (datetime_init 2024 12 31)"
          "datetime_init 2024 3 1"]
    enregistrer_changement_fresh
      [of "fst (ajouter_membre_equipe modou projet_setUp)" "datetime_init 2024 3 1"]
  by (simp add: Projet_init_def notifier_def projet_setUp_def projet_neuf_def
      set_notification_strategy_def ajouter_membre_equipe_def ajouter_membre_def Let_def
      envoyer_message_def modou_def)

subsection \<open>The diamond\<close>

text \<open>
  What \<open>find_longest_path\<close> computes on any diamond \<open>A\<close>, \<open>B\<close>, \<open>C\<close>, \<open>D\<close>: the path of
  \<open>D\<close> runs through \<open>B\<close> when the duration of \<open>B\<close> is positive and not less than that
  of \<open>C\<close>, through \<open>C\<close> when the duration of \<open>C\<close> is positive and greater than that of
  \<open>B\<close>, and through neither otherwise; each of the four tasks is evaluated once.
\<close>

lemma diamond_find_longest_path:
  assumes "distinct [A, B, C, D]"
    and "dependances (h A) = []" and "dependances (h B) = [A]"
    and "dependances (h C) = [A]" and "dependances (h D) = [B, C]"
  shows "find_longest_path (Suc (Suc (Suc limit))) h D fl_init =
     Inr ((max 0 (max (duree h B) (duree h C)) + duree h D,
            (if 0 < duree h B \<and> duree h C \<le> duree h B then [B, D]
             else if 0 < duree h C then [C, D]
             else [D])),
           \<lparr>memo = [A \<mapsto> (0, [A]), B \<mapsto> (duree h B, [B]), C \<mapsto> (duree h C, [C]),
                    D \<mapsto> (max 0 (max (duree h B) (duree h C)) + duree h D,
                          if 0 < duree h B \<and> duree h C \<le> duree h B then [B, D]
                          else if 0 < duree h C then [C, D]
                          else [D])],
            evaluated = [A, B, C, D]\<rparr>)"
  using assms
  by (simp add: fl_init_def store_def duree_def Let_def)

lemma tas_diamant_simps:
  "tas_diamant 0 = tache_A" "tas_diamant 1 = tache_B" "tas_diamant 2 = tache_C"
  "tas_diamant 3 = tache_D" "tas_diamant (Suc 0) = tache_B"
  by (simp_all add: tas_diamant_def)

lemma dependances_diamant:
  "dependances tache_A = []" "dependances tache_B = [0]" "dependances tache_C = [0]"
  "dependances tache_D = [1, 2]"
  by (simp_all add: tache_A_def tache_B_def tache_C_def tache_D_def)

lemma durees_diamant:
  "sub_days (Tache.date_fin tache_B) (Tache.date_debut tache_B) = 0"
  "sub_days (Tache.date_fin tache_C) (Tache.date_debut tache_C) = 0"
  "sub_days (Tache.date_fin tache_D) (Tache.date_debut tache_D) = 8"
  by (simp_all add: tache_B_def tache_C_def tache_D_def datetime_defs)

text \<open>
  Claim C4. In a diamond the claim expects the path of task 3 to run through task 1 when
  tasks 1 and 2 have equal computed durations. On the diamond whose tasks 1 and 2 both
  last less than a day, both computed durations are 0, neither is strictly greater than
  the initial maximum 0, and the code gives task 3 the path \<open>[3]\<close>, through neither of
  them. The shared predecessor 0 is evaluated once: it occurs once in the log. This is so
  whenever the recursion limit allows the three nested calls that the diamond needs.
\<close>

theorem diamant_meme_jour_run:
  "find_longest_path (Suc (Suc (Suc limit))) tas_diamant 3 fl_init =
     Inr ((8, [3]),
           \<lparr>memo = [0 \<mapsto> (0, [0]), 1 \<mapsto> (0, [1]), 2 \<mapsto> (0, [2]), 3 \<mapsto> (8, [3])],
            evaluated = [0, 1, 2, 3]\<rparr>)"
  by (simp add: fl_init_def store_def Let_def tas_diamant_simps durees_diamant
        dependances_diamant)

subsection \<open>Bounded recursion on the accessible part\<close>








subsection \<open>A call that returns a value has only visited accessible tasks\<close>









subsection \<open>A long chain\<close>





lemma chemin_critique_test:
  "calculer_chemin_critique (Suc (Suc limit)) tas_test projet_taches =
     Inr (projet_taches\<lparr>chemin_critique := [1]\<rparr>)"
  by (simp add: tas_test_def store_def duree_tache1 duree_tache2
      dependances_test calculer_chemin_critique_def ajouter_tache_def max_key_def Let_def
      projet_taches_def projet_setUp_def projet_neuf_def set_notification_strategy_def
      Projet_init_def)



subsection \<open>Notifications\<close>

lemma notifier_bound:
  "notification_context p = Some ctx \<Longrightarrow>
   notifier p message = map (envoyer_message (strategy ctx) message) (membres (equipe p))"
  by (simp add: notifier_def NotificationContext_notifier_map)

lemma notifier_unbound: "notification_context p = None \<Longrightarrow> notifier p message = []"
  by (simp add: notifier_def)

lemma notifier_fan_out:
  assumes "notification_context p' = Some ctx" and "out = notifier p' message"
  shows "\<exists>msg. out = map (envoyer_message (strategy ctx) msg) (membres (equipe p'))"
  using assms by (auto simp add: notifier_bound)

lemma snd_notifier:
  "snd (ajouter_tache h t p) = notifier (fst (ajouter_tache h t p))
     (''Nouvelle t'' @ a_circ @ ''che ajout'' @ e_aigu @ ''e: '' @ Tache.nom (h t))"
  "snd (ajouter_membre_equipe m p) = notifier (fst (ajouter_membre_equipe m p))
     (Membre.nom m @ '' a '' @ e_aigu @ ''t'' @ e_aigu @ '' ajout'' @ e_aigu
      @ '' '' @ a_grave @ '' l'' @ apostrophe @ e_aigu @ ''quipe'')"
  "snd (definir_budget float_str b p) = notifier (fst (definir_budget float_str b p))
     (''Le budget du projet a '' @ e_aigu @ ''t'' @ e_aigu @ '' d'' @ e_aigu @ ''fini ''
      @ a_grave @ '' '' @ float_str b @ '' Unit'' @ e_aigu @ '' Mon'' @ e_aigu @ ''taire'')"
  "snd (ajouter_risque r p) = notifier (fst (ajouter_risque r p))
     (''Nouveau risque ajout'' @ e_aigu @ '': '' @ Risque.description r)"
  "snd (ajouter_jalon j p) = notifier (fst (ajouter_jalon j p))
     (''Nouveau jalon ajout'' @ e_aigu @ '': '' @ Jalon.nom j)"
  "snd (enregistrer_changement now d p) = notifier (fst (enregistrer_changement now d p))
     (''Changement enregistr'' @ e_aigu @ '': '' @ d @ '' (version ''
      @ str_int (Projet.version p + 1) @ '')'')"
  by (simp_all add: ajouter_tache_def ajouter_membre_equipe_def definir_budget_def
      ajouter_risque_def ajouter_jalon_def enregistrer_changement_def Let_def)

lemma notification_context_kept:
  "notification_context (fst (ajouter_tache h t p)) = notification_context p"
  "notification_context (fst (ajouter_membre_equipe m p)) = notification_context p"
  "notification_context (fst (definir_budget float_str b p)) = notification_context p"
  "notification_context (fst (ajouter_risque r p)) = notification_context p"
  "notification_context (fst (ajouter_jalon j p)) = notification_context p"
  "notification_context (fst (enregistrer_changement now d p)) = notification_context p"
  by (simp_all add: ajouter_tache_def ajouter_membre_equipe_def definir_budget_def
      ajouter_risque_def ajouter_jalon_def enregistrer_changement_def Let_def)

lemma membres_after:
  "membres (equipe (fst (ajouter_tache h t p))) = membres (equipe p)"
  "membres (equipe (fst (ajouter_membre_equipe m p))) = membres (equipe p) @ [m]"
  "membres (equipe (fst (definir_budget float_str b p))) = membres (equipe p)"
  "membres (equipe (fst (ajouter_risque r p))) = membres (equipe p)"
  "membres (equipe (fst (ajouter_jalon j p))) = membres (equipe p)"
  "membres (equipe (fst (enregistrer_changement now d p))) = membres (equipe p)"
  by (simp_all add: ajouter_tache_def ajouter_membre_equipe_def definir_budget_def
      ajouter_risque_def ajouter_jalon_def enregistrer_changement_def Let_def ajouter_membre_def)

lemma projet_setUp_simps:
  "notification_context projet_setUp = Some \<lparr>strategy = EmailNotificationStrategy\<rparr>"
  "membres (equipe projet_setUp) = []"
  "notification_context projet_neuf = None"
  by (simp_all add: projet_setUp_def projet_neuf_def set_notification_strategy_def
      Projet_init_def)

lemma projet_equipe_simps:
  "notification_context projet_equipe = Some \<lparr>strategy = EmailNotificationStrategy\<rparr>"
  "membres (equipe projet_equipe) = [modou, christian]"
  by (simp_all add: projet_equipe_def notification_context_kept membres_after
      projet_setUp_simps)

text \<open>
  Claim C6. With a strategy bound, each of the six mutating operations prints exactly one
  line per member of the team as it is after the operation, in the order of the member
  list, all with the same message: as many lines as the team had members before, and one
  more for \<open>ajouter_membre_equipe\<close>, whose new member is already in the list when the
  notification is sent.
\<close>

theorem notification_fan_out:
  assumes "notification_context p = Some ctx"
  shows "(\<exists>msg. snd (ajouter_tache h t p) =
            map (envoyer_message (strategy ctx) msg) (membres (equipe (fst (ajouter_tache h t p)))))
    \<and> (\<exists>msg. snd (ajouter_membre_equipe m p) =
            map (envoyer_message (strategy ctx) msg)
              (membres (equipe (fst (ajouter_membre_equipe m p)))))
    \<and> (\<exists>msg. snd (definir_budget float_str b p) =
            map (envoyer_message (strategy ctx) msg)
              (membres (equipe (fst (definir_budget float_str b p)))))
    \<and> (\<exists>msg. snd (ajouter_risque r p) =
            map (envoyer_message (strategy ctx) msg) (membres (equipe (fst (ajouter_risque r p)))))
    \<and> (\<exists>msg. snd (ajouter_jalon j p) =
            map (envoyer_message (strategy ctx) msg) (membres (equipe (fst (ajouter_jalon j p)))))
    \<and> (\<exists>msg. snd (enregistrer_changement now d p) =
            map (envoyer_message (strategy ctx) msg)
              (membres (equipe (fst (enregistrer_changement now d p)))))
    \<and> length (snd (ajouter_tache h t p)) = length (membres (equipe p))
    \<and> length (snd (ajouter_membre_equipe m p)) = length (membres (equipe p)) + 1
    \<and> length (snd (definir_budget float_str b p)) = length (membres (equipe p))
    \<and> length (snd (ajouter_risque r p)) = length (membres (equipe p))
    \<and> length (snd (ajouter_jalon j p)) = length (membres (equipe p))
    \<and> length (snd (enregistrer_changement now d p)) = length (membres (equipe p))"
proof -
  have bound: "notification_context (fst (ajouter_tache h t p)) = Some ctx"
    "notification_context (fst (ajouter_membre_equipe m p)) = Some ctx"
    "notification_context (fst (definir_budget float_str b p)) = Some ctx"
    "notification_context (fst (ajouter_risque r p)) = Some ctx"
    "notification_context (fst (ajouter_jalon j p)) = Some ctx"
    "notification_context (fst (enregistrer_changement now d p)) = Some ctx"
    using assms by (simp_all add: notification_context_kept)
  have lines: "\<And>p' out message. notification_context p' = Some ctx \<Longrightarrow>
      out = notifier p' message \<Longrightarrow> length out = length (membres (equipe p'))"
    by (simp add: notifier_bound)
  show ?thesis
    using bound(1) [THEN notifier_fan_out, OF snd_notifier(1)]
      bound(2) [THEN notifier_fan_out, OF snd_notifier(2)]
      bound(3) [THEN notifier_fan_out, OF snd_notifier(3)]
      bound(4) [THEN notifier_fan_out, OF snd_notifier(4)]
      bound(5) [THEN notifier_fan_out, OF snd_notifier(5)]
      bound(6) [THEN notifier_fan_out, OF snd_notifier(6)]
      lines [OF bound(1) snd_notifier(1)] lines [OF bound(2) snd_notifier(2)]
      lines [OF bound(3) snd_notifier(3)] lines [OF bound(4) snd_notifier(4)]
      lines [OF bound(5) snd_notifier(5)] lines [OF bound(6) snd_notifier(6)]
    by (simp only: membres_after length_append list.size) simp
qed

theorem notification_fan_out_witness:
  "notification_context projet_equipe = Some \<lparr>strategy = EmailNotificationStrategy\<rparr>
   \<and> length (snd (ajouter_tache tas_test 0 projet_equipe)) = 2
   \<and> length (snd (ajouter_membre_equipe modou projet_equipe)) = 3
   \<and> length (snd (definir_budget (\<lambda>b. ''50000.0'') 50000 projet_equipe)) = 2
   \<and> length (snd (ajouter_risque risque_test projet_equipe)) = 2
   \<and> length (snd (ajouter_jalon jalon_test projet_equipe)) = 2
   \<and> length (snd (enregistrer_changement (datetime_init 2024 3 1) ''x'' projet_equipe)) = 2"
  using notification_fan_out [OF projet_equipe_simps(1), of tas_test 0 modou
      "\<lambda>b. ''50000.0''" 50000 risque_test jalon_test "datetime_init 2024 3 1" "''x''"]
  by (simp add: projet_equipe_simps)

text \<open>
  Claim C7. While no strategy has been bound (the notification context is \<open>None\<close>, as the
  constructor leaves it and as only \<open>set_notification_strategy\<close> changes it), each of the
  six mutating operations applies its state change and prints nothing; none of them has
  an error outcome.
\<close>

theorem unbound_notifications_dropped:
  assumes "notification_context p = None"
  shows "ajouter_tache h t p = (p\<lparr>taches := taches p @ [t]\<rparr>, [])
    \<and> ajouter_membre_equipe m p =
        (p\<lparr>equipe := (equipe p)\<lparr>membres := membres (equipe p) @ [m]\<rparr>\<rparr>, [])
    \<and> definir_budget float_str b p = (p\<lparr>budget := b\<rparr>, [])
    \<and> ajouter_risque r p = (p\<lparr>risques := risques p @ [r]\<rparr>, [])
    \<and> ajouter_jalon j p = (p\<lparr>jalons := jalons p @ [j]\<rparr>, [])
    \<and> enregistrer_changement now d p =
        (p\<lparr>changements := changements p @ [Changement_init now d (Projet.version p)],
           Projet.version := Projet.version p + 1\<rparr>, [])"
  using assms
  by (simp add: ajouter_tache_def ajouter_membre_equipe_def definir_budget_def
      ajouter_risque_def ajouter_jalon_def enregistrer_changement_def Let_def notifier_unbound
      ajouter_membre_def)

theorem unbound_notifications_dropped_witness:
  "notification_context projet_neuf = None
   \<and> snd (ajouter_tache tas_test 0 projet_neuf) = []
   \<and> membres (equipe (fst (ajouter_membre_equipe modou projet_neuf))) = [modou]
   \<and> snd (ajouter_membre_equipe modou projet_neuf) = []
   \<and> budget (fst (definir_budget (\<lambda>b. ''50000.0'') 50000 projet_neuf)) = 50000
   \<and> snd (definir_budget (\<lambda>b. ''50000.0'') 50000 projet_neuf) = []
   \<and> ajouter_risque risque_test projet_neuf = (projet_neuf\<lparr>risques := [risque_test]\<rparr>, [])
   \<and> ajouter_jalon jalon_test projet_neuf = (projet_neuf\<lparr>jalons := [jalon_test]\<rparr>, [])
   \<and> snd (enregistrer_changement (datetime_init 2024 3 1) ''x'' projet_neuf) = []"
  using unbound_notifications_dropped [OF projet_setUp_simps(3), of tas_test 0 modou
      "\<lambda>b. ''50000.0''" 50000 risque_test jalon_test "datetime_init 2024 3 1" "''x''"]
  by (simp add: projet_setUp_simps projet_neuf_def Projet_init_def)

text \<open>
  Claim C8. After \<open>ajouter_membre_equipe m\<close> the member list is the former list followed
  by \<open>m\<close>: \<open>m\<close> is in \<open>obtenir_membres\<close> and the list is longer by one. When a strategy
  is bound, the lines printed are one per former member followed by one for \<open>m\<close>: the
  new member is a recipient of the notification of its own arrival.
\<close>

theorem ajouter_membre_equipe_registers:
  "membres (equipe (fst (ajouter_membre_equipe m p))) = membres (equipe p) @ [m]
   \<and> m \<in> set (obtenir_membres (equipe (fst (ajouter_membre_equipe m p))))
   \<and> length (obtenir_membres (equipe (fst (ajouter_membre_equipe m p)))) =
       length (obtenir_membres (equipe p)) + 1
   \<and> (\<forall>ctx. notification_context p = Some ctx \<longrightarrow>
        (\<exists>msg. snd (ajouter_membre_equipe m p) =
           map (envoyer_message (strategy ctx) msg) (membres (equipe p))
           @ [envoyer_message (strategy ctx) msg m]))"
proof -
  have "\<exists>msg. snd (ajouter_membre_equipe m p) =
           map (envoyer_message (strategy ctx) msg) (membres (equipe p))
           @ [envoyer_message (strategy ctx) msg m]"
    if "notification_context p = Some ctx" for ctx
    using notifier_fan_out [OF _ snd_notifier(2), of m p ctx] that
    by (simp add: notification_context_kept membres_after)
  then show ?thesis
    by (simp add: membres_after obtenir_membres_def)
qed

theorem ajouter_membre_equipe_registers_witness:
  "notification_context projet_setUp = Some \<lparr>strategy = EmailNotificationStrategy\<rparr>
   \<and> obtenir_membres (equipe (fst (ajouter_membre_equipe modou projet_setUp))) = [modou]
   \<and> (\<exists>msg. snd (ajouter_membre_equipe modou projet_setUp) =
         [envoyer_message EmailNotificationStrategy msg modou])"
  using ajouter_membre_equipe_registers [of modou projet_setUp]
  by (simp add: projet_setUp_simps obtenir_membres_def)

text \<open>
  Claim C10. \<open>enregistrer_changement\<close> increments the version counter by exactly one.
  The five other mutating operations, \<open>set_notification_strategy\<close> and a run of
  \<open>calculer_chemin_critique\<close> that assigns the critical path leave it as it is, at every
  recursion limit. A run of \<open>calculer_chemin_critique\<close> that raises, and
  \<open>generer_rapport\<close>, return no project at all: they assign no field.
\<close>

theorem version_frame:
  "Projet.version (fst (enregistrer_changement now d p)) = Projet.version p + 1
   \<and> Projet.version (fst (ajouter_tache h t p)) = Projet.version p
   \<and> Projet.version (fst (ajouter_membre_equipe m p)) = Projet.version p
   \<and> Projet.version (fst (definir_budget float_str b p)) = Projet.version p
   \<and> Projet.version (fst (ajouter_risque r p)) = Projet.version p
   \<and> Projet.version (fst (ajouter_jalon j p)) = Projet.version p
   \<and> Projet.version (set_notification_strategy s p) = Projet.version p
   \<and> (\<forall>p'. calculer_chemin_critique limit h p = Inr p' \<longrightarrow>
         Projet.version p' = Projet.version p)"
  by (auto simp add: ajouter_tache_def ajouter_membre_equipe_def definir_budget_def
      ajouter_risque_def ajouter_jalon_def enregistrer_changement_def Let_def
      set_notification_strategy_def calculer_chemin_critique_def
      split: sum.splits prod.splits)

theorem version_frame_witness:
  "calculer_chemin_critique 2 tas_test projet_taches =
     Inr (projet_taches\<lparr>chemin_critique := [1]\<rparr>)
   \<and> Projet.version (projet_taches\<lparr>chemin_critique := [1]\<rparr>) = Projet.version projet_taches
   \<and> Projet.version (fst (enregistrer_changement (datetime_init 2024 3 1) ''x'' projet_taches))
       = 2"
  using version_frame [where h = tas_test and p = projet_taches and limit = 2
      and now = "datetime_init 2024 3 1" and d = "''x''"]
    chemin_critique_test [of 0]
  by (simp add: numeral_2_eq_2 projet_taches_def ajouter_tache_def Let_def projet_setUp_def
      projet_neuf_def set_notification_strategy_def Projet_init_def)

subsection \<open>The report\<close>

text \<open>
  Claim C9. The report is a function of what it prints and of nothing else: the name,
  version, dates, budget, team, task list, milestones, risks and cached critical path of
  the project, and the task objects that the task list and the critical path refer to.
  Two states that agree on these give the same text; in particular two calls of
  \<open>generer_rapport\<close> on the same state, which the call itself does not change, return
  identical text.
\<close>

theorem generer_rapport_deterministic:
  assumes "Projet.nom p' = Projet.nom p" and "Projet.version p' = Projet.version p"
    and "Projet.date_debut p' = Projet.date_debut p" and "Projet.date_fin p' = Projet.date_fin p"
    and "budget p' = budget p" and "equipe p' = equipe p" and "taches p' = taches p"
    and "jalons p' = jalons p" and "risques p' = risques p"
    and "chemin_critique p' = chemin_critique p"
    and "\<forall>t \<in> set (taches p) \<union> set (chemin_critique p). h' t = h t"
  shows "generer_rapport float_str h' p' = generer_rapport float_str h p"
proof -
  have lignes_taches:
    "map (\<lambda>t. ligne_tache (h' t)) (taches p) = map (\<lambda>t. ligne_tache (h t)) (taches p)"
    using assms(11) by simp
  have lignes_chemin:
    "map (\<lambda>t. ligne_chemin (h' t)) (chemin_critique p) =
      map (\<lambda>t. ligne_chemin (h t)) (chemin_critique p)"
    using assms(11) by simp
  show ?thesis
    unfolding generer_rapport_def assms(1-10) lignes_taches lignes_chemin by (rule refl)
qed

theorem generer_rapport_deterministic_witness:
  "taches projet_taches = [0, 1] \<and> chemin_critique projet_taches = []
   \<and> (tas_test(5 := tache2)) 0 = tas_test 0 \<and> (tas_test(5 := tache2)) 1 = tas_test 1
   \<and> generer_rapport (\<lambda>b. ''0.0'') (tas_test(5 := tache2))
        (projet_taches\<lparr>Projet.description := ''autre''\<rparr>)
     = generer_rapport (\<lambda>b. ''0.0'') tas_test projet_taches"
proof -
  have lists: "taches projet_taches = [0, 1] \<and> chemin_critique projet_taches = []"
    by (simp add: projet_taches_def ajouter_tache_def Let_def projet_setUp_def projet_neuf_def
        set_notification_strategy_def Projet_init_def)
  show ?thesis
    using lists
      generer_rapport_deterministic [of "projet_taches\<lparr>Projet.description := ''autre''\<rparr>"
        projet_taches "tas_test(5 := tache2)" tas_test "\<lambda>b. ''0.0''"]
    by simp
qed

end
